theory Spec2Isabelle
  imports Main "HOL-Library.AList"
begin

section \<open>Configuration object (config.js)\<close>

text \<open>
  The exported \<open>config\<close> object is a plain JavaScript object of sections. Both
  configuration files of the repository define \<open>stickySession\<close>, \<open>healthCheck\<close> and
  \<open>server\<close>; only one of them defines \<open>failover\<close>. Reading a property of a
  section that is not there throws a TypeError in JavaScript, so the
  \<open>failover\<close> section is an \<open>option\<close>.
\<close>

record stickySession_cfg =
  ss_enabled :: bool
  ss_resetInterval :: nat

record healthCheck_cfg =
  hc_enabled :: bool
  hc_interval :: nat
  hc_timeout :: nat
  hc_path :: string
  hc_method :: string
  unhealthyThreshold :: nat
  healthyThreshold :: nat

record failover_cfg =
  fo_enabled :: bool

record server_cfg =
  srv_port :: nat
  srv_host :: string

record config =
  stickySession :: stickySession_cfg
  healthCheck :: healthCheck_cfg
  failover :: "failover_cfg option"
  server :: server_cfg

text \<open>The object exported by \<open>src/config.js\<close>: it has no \<open>failover\<close> section.\<close>

definition config_js :: config where
  "config_js =
     \<lparr> stickySession = \<lparr> ss_enabled = True, ss_resetInterval = 24 * 60 * 60 * 1000 \<rparr>,
       healthCheck = \<lparr> hc_enabled = True, hc_interval = 5000, hc_timeout = 3000,
                       hc_path = ''/health'', hc_method = ''GET'',
                       unhealthyThreshold = 2, healthyThreshold = 1 \<rparr>,
       failover = None,
       server = \<lparr> srv_port = 8080, srv_host = ''localhost'' \<rparr> \<rparr>"

text \<open>The configuration file that comes with the failover-aware balancer.\<close>

definition config_failover :: config where
  "config_failover =
     \<lparr> stickySession = \<lparr> ss_enabled = False, ss_resetInterval = 24 * 60 * 60 * 1000 \<rparr>,
       healthCheck = \<lparr> hc_enabled = True, hc_interval = 5000, hc_timeout = 3000,
                       hc_path = ''/'', hc_method = ''GET'',
                       unhealthyThreshold = 2, healthyThreshold = 1 \<rparr>,
       failover = Some \<lparr> fo_enabled = True \<rparr>,
       server = \<lparr> srv_port = 8080, srv_host = ''localhost'' \<rparr> \<rparr>"

section \<open>Balancer state\<close>

text \<open>
  The module-level variables of the balancer. The two JavaScript \<open>Map\<close>s are
  association lists in insertion order: \<open>map_of\<close> is \<open>get\<close>, \<open>AList.update\<close> is
  \<open>set\<close> (an existing key keeps its place, a new one goes to the end) and
  \<open>AList.delete\<close> is \<open>delete\<close>. Counters are JavaScript numbers that only ever
  count up from 0 by 1, hence \<open>nat\<close>. Timer handles and request sockets belong to
  the runtime and are not part of the state.
\<close>

record health =
  isHealthy :: bool
  failures :: nat
  successes :: nat
  latency :: "int option"
  lastCheck :: "string option"

record lb_state =
  sessionMap :: "(string \<times> string) list"
  current :: nat
  targetHealth :: "(string \<times> health) list"
  isShuttingDown :: bool

datatype error = TypeError

definition initHealth :: health where
  "initHealth = \<lparr> isHealthy = True, failures = 0, successes = 0,
                  latency = None, lastCheck = None \<rparr>"

definition initState :: "string list \<Rightarrow> lb_state" where
  "initState targets =
     \<lparr> sessionMap = [], current = 0,
       targetHealth = fold (\<lambda>target th. AList.update target initHealth th) targets [],
       isShuttingDown = False \<rparr>"

text \<open>\<open>health && health.isHealthy\<close> for the record of a target.\<close>

definition healthyTarget :: "lb_state \<Rightarrow> string \<Rightarrow> bool" where
  "healthyTarget s target =
     (case map_of (targetHealth s) target of None \<Rightarrow> False | Some h \<Rightarrow> isHealthy h)"

definition getHealthyTargets :: "string list \<Rightarrow> lb_state \<Rightarrow> string list" where
  "getHealthyTargets targets s = filter (healthyTarget s) targets"

section \<open>Routing decision: getTargetForIp\<close>

text \<open>\<open>if (config.stickySession.enabled) sessionMap.set(ip, target)\<close>.\<close>

definition remember :: "config \<Rightarrow> string \<Rightarrow> string \<Rightarrow> lb_state \<Rightarrow> lb_state" where
  "remember cfg ip target s =
     (if ss_enabled (stickySession cfg)
      then s\<lparr> sessionMap := AList.update ip target (sessionMap s) \<rparr>
      else s)"

text \<open>
  The body of the failover block: the target it returns, or \<open>None\<close> when neither
  \<open>if\<close> fires and control leaves the block. \<open>targets[0]\<close> and \<open>targets[1]\<close> are
  read only under the guard \<open>targets.length >= 2\<close>.
\<close>

definition failoverTarget :: "string list \<Rightarrow> lb_state \<Rightarrow> string option" where
  "failoverTarget targets s =
     (let service1 = targets ! 0;
          service2 = targets ! 1
      in case map_of (targetHealth s) service1 of
           None \<Rightarrow> None
         | Some service1Health \<Rightarrow>
             if isHealthy service1Health then Some service1
             else if healthyTarget s service2 then Some service2
             else None)"

text \<open>
  The round-robin fallback: \<open>null\<close> when no target is healthy, else the target
  under the cursor, and the cursor advanced modulo the number of healthy
  targets.
\<close>

definition roundRobin :: "config \<Rightarrow> string list \<Rightarrow> string \<Rightarrow> lb_state \<Rightarrow> string option \<times> lb_state" where
  "roundRobin cfg targets ip s =
     (let healthyTargets = getHealthyTargets targets s
      in if length healthyTargets = 0 then (None, s)
         else
           (let target = healthyTargets ! (current s mod length healthyTargets);
                s' = s\<lparr> current := (current s + 1) mod length healthyTargets \<rparr>
            in (Some target, remember cfg ip target s')))"

text \<open>
  \<open>getTargetForIp(ip)\<close>: the result is \<open>Inl TypeError\<close> where the source throws,
  else the returned target (\<open>None\<close> for \<open>null\<close>) with the state it leaves.
\<close>

definition getTargetForIp ::
  "config \<Rightarrow> string list \<Rightarrow> string \<Rightarrow> lb_state \<Rightarrow> error + (string option \<times> lb_state)" where
  "getTargetForIp cfg targets ip s0 =
     (let cached = (if ss_enabled (stickySession cfg) then map_of (sessionMap s0) ip else None)
      in case (case cached of
                 None \<Rightarrow> Inr s0
               | Some cachedTarget \<Rightarrow>
                   if healthyTarget s0 cachedTarget then Inl cachedTarget
                   else Inr (s0\<lparr> sessionMap := AList.delete ip (sessionMap s0) \<rparr>)) of
           Inl cachedTarget \<Rightarrow> Inr (Some cachedTarget, s0)
         | Inr s \<Rightarrow>
            (case failover cfg of
               None \<Rightarrow> Inl TypeError
             | Some fo \<Rightarrow>
                (case (if fo_enabled fo \<and> 2 \<le> length targets
                       then failoverTarget targets s else None) of
                   Some target \<Rightarrow> Inr (Some target, remember cfg ip target s)
                 | None \<Rightarrow> Inr (roundRobin cfg targets ip s))))"

section \<open>Health probes: checkTargetHealth and performHealthCheck\<close>

text \<open>
  What the HTTP transport delivers for one probe request: a response with its
  status code, an \<open>error\<close> event with its message, or a \<open>timeout\<close> event; each
  with the measured \<open>Date.now() - startTime\<close>.
\<close>

datatype probe_outcome =
    Response int int
  | ConnError string int
  | Timeout int

text \<open>The object a probe resolves with; an absent property is \<open>None\<close>.\<close>

record check_result =
  r_isHealthy :: bool
  r_error :: "string option"
  r_statusCode :: "int option"
  r_latency :: "int option"

text \<open>
  \<open>checkTargetHealth(target)\<close>: the flag \<open>isShuttingDown\<close> is read when the probe
  is started; while it is set no request is sent and the probe resolves at once.
  Otherwise the result is built by the handler of the event the transport
  delivers. The targets are the constant URLs of the source, so \<open>new URL(target)\<close>
  does not throw.
\<close>

definition checkTargetHealth :: "lb_state \<Rightarrow> probe_outcome \<Rightarrow> check_result" where
  "checkTargetHealth s outcome =
     (if isShuttingDown s
      then \<lparr> r_isHealthy = False, r_error = Some ''Shutting down'',
             r_statusCode = None, r_latency = None \<rparr>
      else case outcome of
             Response statusCode lat \<Rightarrow>
               \<lparr> r_isHealthy = (statusCode = 200), r_error = None,
                 r_statusCode = Some statusCode, r_latency = Some lat \<rparr>
           | ConnError message lat \<Rightarrow>
               \<lparr> r_isHealthy = False, r_error = Some message,
                 r_statusCode = None, r_latency = Some lat \<rparr>
           | Timeout lat \<Rightarrow>
               \<lparr> r_isHealthy = False, r_error = Some ''Timeout'',
                 r_statusCode = None, r_latency = Some lat \<rparr>)"

text \<open>
  The lines \<open>performHealthCheck\<close> writes to the console. The two transition
  lines are \<open>NowHealthy\<close> and \<open>NowUnhealthy\<close>; \<open>CheckFailed\<close> is the line for a
  failed probe of a target that is already unhealthy.
\<close>

datatype error_msg = StatusCodeMsg int | ErrorMsg string

datatype log_event =
    NowHealthy string int "int option"
  | NowUnhealthy string error_msg
  | CheckFailed string nat nat error_msg

text \<open>
  \<open>result.statusCode ? `Status code ...` : (result.error || "Unknown error")\<close>:
  a status code of 0 and an empty message are falsy.
\<close>

definition errorMsg :: "check_result \<Rightarrow> error_msg" where
  "errorMsg result =
     (let fallback = ErrorMsg (case r_error result of
                                 None \<Rightarrow> ''Unknown error''
                               | Some e \<Rightarrow> if e = [] then ''Unknown error'' else e)
      in case r_statusCode result of
           None \<Rightarrow> fallback
         | Some c \<Rightarrow> if c = 0 then fallback else StatusCodeMsg c)"

text \<open>
  The loop over \<open>sessionMap.entries()\<close> that deletes every entry whose cached
  target is \<open>target\<close>.
\<close>

definition purgeSessions :: "string \<Rightarrow> (string \<times> string) list \<Rightarrow> (string \<times> string) list" where
  "purgeSessions target sm = filter (\<lambda>(ip, cachedTarget). cachedTarget \<noteq> target) sm"

text \<open>
  The part of \<open>performHealthCheck\<close> after the \<open>await\<close>: it applies the result of
  the probe to the state as it is when the probe has resolved. \<open>now\<close> is
  \<open>new Date().toISOString()\<close>. A target without a health record makes the first
  write to \<open>health\<close> throw. The value is the console lines written and the new
  state.
\<close>

definition performHealthCheck_apply ::
  "config \<Rightarrow> string \<Rightarrow> string \<Rightarrow> check_result \<Rightarrow> lb_state \<Rightarrow> error + (log_event list \<times> lb_state)" where
  "performHealthCheck_apply cfg now target result s =
     (case map_of (targetHealth s) target of
        None \<Rightarrow> Inl TypeError
      | Some health \<Rightarrow>
         (let healthConfig = healthCheck cfg;
              h1 = health\<lparr> latency := (case r_latency result of
                                          None \<Rightarrow> latency health
                                        | Some l \<Rightarrow> Some l),
                            lastCheck := Some now \<rparr>
          in if r_isHealthy result then
               (let h2 = h1\<lparr> successes := successes h1 + 1, failures := 0 \<rparr>
                in if \<not> isHealthy h2 \<and> healthyThreshold healthConfig \<le> successes h2
                   then Inr ([NowHealthy target
                                (case r_statusCode result of
                                   None \<Rightarrow> 200
                                 | Some c \<Rightarrow> if c = 0 then 200 else c)
                                (r_latency result)],
                             s\<lparr> targetHealth :=
                                  AList.update target (h2\<lparr> isHealthy := True \<rparr>) (targetHealth s) \<rparr>)
                   else Inr ([], s\<lparr> targetHealth := AList.update target h2 (targetHealth s) \<rparr>))
             else
               (let h2 = h1\<lparr> successes := 0, failures := failures h1 + 1 \<rparr>
                in if isHealthy h2 \<and> unhealthyThreshold healthConfig \<le> failures h2
                   then Inr ([NowUnhealthy target (errorMsg result)],
                             s\<lparr> targetHealth :=
                                  AList.update target (h2\<lparr> isHealthy := False \<rparr>) (targetHealth s),
                                sessionMap := purgeSessions target (sessionMap s) \<rparr>)
                   else if \<not> isHealthy h2
                   then Inr ([CheckFailed target (failures h2) (unhealthyThreshold healthConfig)
                                (errorMsg result)],
                             s\<lparr> targetHealth := AList.update target h2 (targetHealth s) \<rparr>)
                   else Inr ([], s\<lparr> targetHealth := AList.update target h2 (targetHealth s) \<rparr>))))"

text \<open>
  \<open>performHealthCheck(target)\<close> as one step: the probe is started and resolves
  with no other step in between.
\<close>

definition performHealthCheck ::
  "config \<Rightarrow> string \<Rightarrow> string \<Rightarrow> probe_outcome \<Rightarrow> lb_state \<Rightarrow> error + (log_event list \<times> lb_state)" where
  "performHealthCheck cfg now target outcome s =
     performHealthCheck_apply cfg now target (checkTargetHealth s outcome) s"

text \<open>
  A run of probes of one target, each applied to the state the previous one
  left; the console lines are collected in order. The run stops where an
  application throws.
\<close>

fun applyProbes ::
  "config \<Rightarrow> string \<Rightarrow> (string \<times> check_result) list \<Rightarrow> lb_state \<Rightarrow> error + (log_event list \<times> lb_state)" where
  "applyProbes cfg target [] s = Inr ([], s)"
| "applyProbes cfg target ((now, result) # rest) s =
     (case performHealthCheck_apply cfg now target result s of
        Inl e \<Rightarrow> Inl e
      | Inr (evs, s') \<Rightarrow>
          (case applyProbes cfg target rest s' of
             Inl e \<Rightarrow> Inl e
           | Inr (evs', s'') \<Rightarrow> Inr (evs @ evs', s'')))"

fun isTransition :: "log_event \<Rightarrow> bool" where
  "isTransition (NowHealthy _ _ _) = True"
| "isTransition (NowUnhealthy _ _) = True"
| "isTransition (CheckFailed _ _ _ _) = False"

fun isNowUnhealthy :: "log_event \<Rightarrow> bool" where
  "isNowUnhealthy (NowUnhealthy _ _) = True"
| "isNowUnhealthy _ = False"

fun isNowHealthy :: "log_event \<Rightarrow> bool" where
  "isNowHealthy (NowHealthy _ _ _) = True"
| "isNowHealthy _ = False"

section \<open>Shutdown\<close>

text \<open>
  \<open>shutdown()\<close>: the first call sets the flag; \<open>stopHealthChecks\<close> clears the
  interval timers and destroys the open probe requests, and the exit timer and
  \<open>server.close\<close> are started. None of these touches the state modelled here.
\<close>

definition shutdown :: "lb_state \<Rightarrow> lb_state" where
  "shutdown s = (if isShuttingDown s then s else s\<lparr> isShuttingDown := True \<rparr>)"

section \<open>Periodic reset of the sticky sessions\<close>

text \<open>
  The callback of the \<open>setInterval\<close> timer that is installed when
  \<open>config.stickySession.enabled\<close> holds; it runs every
  \<open>config.stickySession.resetInterval\<close> milliseconds: \<open>sessionMap.clear()\<close>.
\<close>

definition stickySessionReset :: "lb_state \<Rightarrow> lb_state" where
  "stickySessionReset s = s\<lparr> sessionMap := [] \<rparr>"

section \<open>Request handling\<close>

text \<open>
  What the request handler does with a request: it answers itself with a
  status code and a body, or hands the request to the proxy for a target.
\<close>

datatype response =
    StatusPage "(string \<times> bool \<times> int option \<times> string option \<times> nat \<times> nat) list"
  | Respond nat string
  | ProxyTo string

text \<open>The rows of the \<open>/status\<close> endpoint, one per configured target.\<close>

definition statusData ::
  "string list \<Rightarrow> lb_state \<Rightarrow> (string \<times> bool \<times> int option \<times> string option \<times> nat \<times> nat) list" where
  "statusData targets s =
     map (\<lambda>target. case map_of (targetHealth s) target of
                      None \<Rightarrow> (target, False, None, None, 0, 0)
                    | Some h \<Rightarrow> (target, isHealthy h, latency h, lastCheck h,
                                 failures h, successes h)) targets"

text \<open>
  The request handler up to the call of \<open>proxy.web\<close>; \<open>ip\<close> is
  \<open>getClientIp(req)\<close>. \<open>!target\<close> holds for \<open>null\<close> and for the empty string.
\<close>

definition handleRequest ::
  "config \<Rightarrow> string list \<Rightarrow> string \<Rightarrow> string \<Rightarrow> string \<Rightarrow> lb_state \<Rightarrow> error + (response \<times> lb_state)" where
  "handleRequest cfg targets url meth ip s =
     (if url = ''/status'' \<and> meth = ''GET'' then Inr (StatusPage (statusData targets s), s)
      else case getTargetForIp cfg targets ip s of
             Inl e \<Rightarrow> Inl e
           | Inr (target, s') \<Rightarrow>
               (case target of
                  None \<Rightarrow> Inr (Respond 503 ''Service Unavailable: No healthy targets available'', s')
                | Some t \<Rightarrow>
                    if t = [] then Inr (Respond 503 ''Service Unavailable: No healthy targets available'', s')
                    else Inr (ProxyTo t, s')))"

text \<open>
  The error callback of \<open>proxy.web\<close> and of \<open>proxy.ws\<close>, up to the point where
  \<open>performHealthCheck(target)\<close> has been called and has not resolved yet: the new
  state and the targets for which a probe was started.
\<close>

definition proxyError :: "string \<Rightarrow> lb_state \<Rightarrow> lb_state \<times> string list" where
  "proxyError target s =
     (case map_of (targetHealth s) target of
        None \<Rightarrow> (s, [])
      | Some health \<Rightarrow>
          (s\<lparr> targetHealth :=
                AList.update target (health\<lparr> failures := failures health + 1 \<rparr>) (targetHealth s) \<rparr>,
           [target]))"

section \<open>Derived descriptions and sample data\<close>

text \<open>
  The health record \<open>performHealthCheck\<close> leaves for the probed target, written
  as one expression of the record it found (lemma \<open>performHealthCheck_apply_Some\<close>
  shows that this is what the code stores).
\<close>

definition appliedHealth :: "config \<Rightarrow> string \<Rightarrow> check_result \<Rightarrow> health \<Rightarrow> health" where
  "appliedHealth cfg now result h =
     h\<lparr> latency := (case r_latency result of None \<Rightarrow> latency h | Some l \<Rightarrow> Some l),
        lastCheck := Some now,
        successes := (if r_isHealthy result then successes h + 1 else 0),
        failures := (if r_isHealthy result then 0 else failures h + 1),
        isHealthy := (if r_isHealthy result
                      then isHealthy h \<or> healthyThreshold (healthCheck cfg) \<le> successes h + 1
                      else isHealthy h \<and> \<not> unhealthyThreshold (healthCheck cfg) \<le> failures h + 1) \<rparr>"

text \<open>The state in which the sticky-session block of \<open>getTargetForIp\<close> leaves a miss.\<close>

definition afterStickyMiss :: "config \<Rightarrow> string \<Rightarrow> lb_state \<Rightarrow> lb_state" where
  "afterStickyMiss cfg ip s =
     (if ss_enabled (stickySession cfg) \<and> map_of (sessionMap s) ip \<noteq> None
      then s\<lparr> sessionMap := AList.delete ip (sessionMap s) \<rparr>
      else s)"

text \<open>The sticky-session block returns a cached target (an affinity hit).\<close>

definition affinityHit :: "config \<Rightarrow> string \<Rightarrow> lb_state \<Rightarrow> bool" where
  "affinityHit cfg ip s =
     (ss_enabled (stickySession cfg) \<and>
      (case map_of (sessionMap s) ip of None \<Rightarrow> False | Some c \<Rightarrow> healthyTarget s c))"

text \<open>The \<open>targets\<close> array of the source and states used in the examples.\<close>

definition targets_js :: "string list" where
  "targets_js = [''https://h1.example.com'', ''https://h2.example.com'']"

definition sticky_failover :: config where
  "sticky_failover = config_failover\<lparr> stickySession := \<lparr> ss_enabled = True, ss_resetInterval = 24 * 60 * 60 * 1000 \<rparr> \<rparr>"

definition okResult :: check_result where
  "okResult = \<lparr> r_isHealthy = True, r_error = None, r_statusCode = Some 200, r_latency = Some 12 \<rparr>"

definition failResult :: check_result where
  "failResult = \<lparr> r_isHealthy = False, r_error = Some ''ECONNREFUSED'', r_statusCode = None, r_latency = Some 3 \<rparr>"

text \<open>Both targets healthy, the first one with one failure counted, one client cached on it.\<close>

definition state_one_failure :: lb_state where
  "state_one_failure =
     \<lparr> sessionMap = [(''10.0.0.1'', ''https://h1.example.com'')], current = 0,
       targetHealth = [(''https://h1.example.com'', initHealth\<lparr> failures := 1 \<rparr>),
                       (''https://h2.example.com'', initHealth)],
       isShuttingDown = False \<rparr>"

text \<open>The first target unhealthy, the second healthy, the cursor at 0.\<close>

definition state_primary_down :: lb_state where
  "state_primary_down =
     \<lparr> sessionMap = [], current = 0,
       targetHealth = [(''https://h1.example.com'', initHealth\<lparr> isHealthy := False, failures := 2 \<rparr>),
                       (''https://h2.example.com'', initHealth)],
       isShuttingDown = False \<rparr>"

text \<open>Both targets unhealthy.\<close>

definition state_all_down :: lb_state where
  "state_all_down =
     \<lparr> sessionMap = [], current = 1,
       targetHealth = [(''https://h1.example.com'', initHealth\<lparr> isHealthy := False, failures := 2 \<rparr>),
                       (''https://h2.example.com'', initHealth\<lparr> isHealthy := False, failures := 5 \<rparr>)],
       isShuttingDown = False \<rparr>"

text \<open>\<open>state_one_failure\<close> after one more failed probe of the first target.\<close>

definition state_h1_down :: lb_state where
  "state_h1_down =
     \<lparr> sessionMap = [], current = 0,
       targetHealth = [(''https://h1.example.com'',
                        \<lparr> isHealthy = False, failures = 2, successes = 0, latency = Some 3,
                          lastCheck = Some ''2024-01-01T12:00:00.000Z'' \<rparr>),
                       (''https://h2.example.com'', initHealth)],
       isShuttingDown = False \<rparr>"

text \<open>Both targets healthy, the first one after three successful probes.\<close>

definition state_three_successes :: lb_state where
  "state_three_successes =
     \<lparr> sessionMap = [], current = 1,
       targetHealth = [(''https://h1.example.com'', initHealth\<lparr> successes := 3 \<rparr>),
                       (''https://h2.example.com'', initHealth)],
       isShuttingDown = False \<rparr>"

text \<open>
  \<open>state_one_failure\<close> after \<open>shutdown()\<close> and then a probe of the first target
  that was started after the shutdown.
\<close>

definition state_shutdown_probe :: lb_state where
  "state_shutdown_probe =
     \<lparr> sessionMap = [], current = 0,
       targetHealth = [(''https://h1.example.com'',
                        \<lparr> isHealthy = False, failures = 2, successes = 0, latency = None,
                          lastCheck = Some ''2024-01-01T12:00:00.000Z'' \<rparr>),
                       (''https://h2.example.com'', initHealth)],
       isShuttingDown = True \<rparr>"

text \<open>
  \<open>state_one_failure\<close> after \<open>shutdown()\<close> and then the result of a probe of the
  first target that was in flight when the shutdown began.
\<close>

definition state_shutdown_inflight :: lb_state where
  "state_shutdown_inflight =
     \<lparr> sessionMap = [], current = 0,
       targetHealth = [(''https://h1.example.com'',
                        \<lparr> isHealthy = False, failures = 2, successes = 0, latency = Some 7,
                          lastCheck = Some ''2024-01-01T12:00:00.000Z'' \<rparr>),
                       (''https://h2.example.com'', initHealth)],
       isShuttingDown = True \<rparr>"

text \<open>Sticky sessions enabled, the failover section present and switched off.\<close>

definition sticky_roundrobin :: config where
  "sticky_roundrobin =
     sticky_failover\<lparr> failover := Some \<lparr> fo_enabled = False \<rparr> \<rparr>"

text \<open>Both targets healthy, one client cached on the first target, the cursor at 1.\<close>

definition state_cached_cursor :: lb_state where
  "state_cached_cursor =
     \<lparr> sessionMap = [(''10.0.0.1'', ''https://h1.example.com'')], current = 1,
       targetHealth = [(''https://h1.example.com'', initHealth),
                       (''https://h2.example.com'', initHealth)],
       isShuttingDown = False \<rparr>"

text \<open>
  \<open>state_cached_cursor\<close> after the periodic reset and then a selection for the
  same client.
\<close>

definition state_after_reset :: lb_state where
  "state_after_reset =
     \<lparr> sessionMap = [(''10.0.0.1'', ''https://h2.example.com'')], current = 0,
       targetHealth = [(''https://h1.example.com'', initHealth),
                       (''https://h2.example.com'', initHealth)],
       isShuttingDown = False \<rparr>"

section \<open>Helper lemmas\<close>

lemma performHealthCheck_apply_None:
  "map_of (targetHealth s) target = None \<Longrightarrow>
   performHealthCheck_apply cfg now target result s = Inl TypeError"
  by (simp add: performHealthCheck_apply_def)

lemma performHealthCheck_apply_Some:
  assumes "map_of (targetHealth s) target = Some h"
  shows "\<exists>evs. performHealthCheck_apply cfg now target result s =
           Inr (evs, s\<lparr> targetHealth := AList.update target (appliedHealth cfg now result h) (targetHealth s),
                        sessionMap := (if isHealthy h \<and> \<not> isHealthy (appliedHealth cfg now result h)
                                       then purgeSessions target (sessionMap s) else sessionMap s) \<rparr>)
         \<and> filter isTransition evs =
             (if isHealthy h \<and> \<not> isHealthy (appliedHealth cfg now result h)
              then [NowUnhealthy target (errorMsg result)]
              else if \<not> isHealthy h \<and> isHealthy (appliedHealth cfg now result h)
              then [NowHealthy target (case r_statusCode result of None \<Rightarrow> 200
                                        | Some c \<Rightarrow> if c = 0 then 200 else c) (r_latency result)]
              else [])"
  using assms
  by (cases h) (auto simp: performHealthCheck_apply_def appliedHealth_def Let_def)

lemma map_of_purgeSessions:
  "map_of (purgeSessions target sm) ip \<noteq> Some target"
proof
  assume "map_of (purgeSessions target sm) ip = Some target"
  then have "(ip, target) \<in> set (purgeSessions target sm)" by (rule map_of_SomeD)
  then show False by (simp add: purgeSessions_def)
qed

lemma map_of_purgeSessions_other:
  "map_of sm ip = Some t \<Longrightarrow> t \<noteq> target \<Longrightarrow> map_of (purgeSessions target sm) ip = Some t"
  by (induction sm) (auto simp: purgeSessions_def)

lemma health_after_apply:
  assumes "map_of (targetHealth s) target = Some h"
      and "performHealthCheck_apply cfg now target result s = Inr (evs, s')"
  shows "map_of (targetHealth s') target = Some (appliedHealth cfg now result h)"
    and "t \<noteq> target \<Longrightarrow> map_of (targetHealth s') t = map_of (targetHealth s) t"
    and "sessionMap s' = (if isHealthy h \<and> \<not> isHealthy (appliedHealth cfg now result h)
                          then purgeSessions target (sessionMap s) else sessionMap s)"
    and "current s' = current s" and "isShuttingDown s' = isShuttingDown s"
    and "filter isTransition evs =
             (if isHealthy h \<and> \<not> isHealthy (appliedHealth cfg now result h)
              then [NowUnhealthy target (errorMsg result)]
              else if \<not> isHealthy h \<and> isHealthy (appliedHealth cfg now result h)
              then [NowHealthy target (case r_statusCode result of None \<Rightarrow> 200
                                        | Some c \<Rightarrow> if c = 0 then 200 else c) (r_latency result)]
              else [])"
  using performHealthCheck_apply_Some [OF assms(1), of cfg now result] assms(2)
  by (auto simp: update_conv')

lemma filter_isNowUnhealthy_transitions:
  "filter isNowUnhealthy (filter isTransition evs) = filter isNowUnhealthy evs"
proof -
  have "isNowUnhealthy e \<Longrightarrow> isTransition e" for e by (cases e) simp_all
  then show ?thesis by (induction evs) auto
qed

lemma filter_isNowHealthy_transitions:
  "filter isNowHealthy (filter isTransition evs) = filter isNowHealthy evs"
proof -
  have "isNowHealthy e \<Longrightarrow> isTransition e" for e by (cases e) simp_all
  then show ?thesis by (induction evs) auto
qed

lemma applyProbes_failures:
  assumes "map_of (targetHealth s) target = Some h"
      and "list_all (\<lambda>(now, r). \<not> r_isHealthy r) rs"
  shows "\<exists>evs s' h'. applyProbes cfg target rs s = Inr (evs, s')
           \<and> map_of (targetHealth s') target = Some h'
           \<and> failures h' = failures h + length rs
           \<and> isHealthy h' = (isHealthy h \<and> (rs = [] \<or> \<not> unhealthyThreshold (healthCheck cfg) \<le> failures h + length rs))
           \<and> length (filter isNowUnhealthy evs) =
               (if isHealthy h \<and> rs \<noteq> [] \<and> unhealthyThreshold (healthCheck cfg) \<le> failures h + length rs
                then 1 else 0)
           \<and> filter isNowHealthy evs = []"
  using assms
proof (induction rs arbitrary: s h)
  case Nil
  then show ?case by simp
next
  case (Cons p rs)
  obtain now r where p: "p = (now, r)" by (cases p)
  from Cons.prems(2) p have rf: "\<not> r_isHealthy r" and rest: "list_all (\<lambda>(now, r). \<not> r_isHealthy r) rs"
    by auto
  from performHealthCheck_apply_Some [OF Cons.prems(1), of cfg now r]
  obtain evs1 s1 where step: "performHealthCheck_apply cfg now target r s = Inr (evs1, s1)"
    by blast
  let ?h1 = "appliedHealth cfg now r h"
  note facts = health_after_apply [OF Cons.prems(1) step]
  have h1: "map_of (targetHealth s1) target = Some ?h1" by (rule facts(1))
  have tr1: "filter isTransition evs1 = (if isHealthy h \<and> \<not> isHealthy ?h1 then [NowUnhealthy target (errorMsg r)] else [])"
    using facts(6) rf by (auto simp: appliedHealth_def)
  have f1: "failures ?h1 = failures h + 1"
    and i1: "isHealthy ?h1 = (isHealthy h \<and> \<not> unhealthyThreshold (healthCheck cfg) \<le> failures h + 1)"
    using rf by (simp_all add: appliedHealth_def)
  have nu1: "filter isNowUnhealthy evs1 = filter isNowUnhealthy (filter isTransition evs1)"
    and nh1: "filter isNowHealthy evs1 = filter isNowHealthy (filter isTransition evs1)"
    by (rule filter_isNowUnhealthy_transitions [symmetric], rule filter_isNowHealthy_transitions [symmetric])
  from Cons.IH [OF h1 rest]
  obtain evs2 s2 h2 where run: "applyProbes cfg target rs s1 = Inr (evs2, s2)"
     and h2: "map_of (targetHealth s2) target = Some h2"
     and f2: "failures h2 = failures ?h1 + length rs"
     and i2: "isHealthy h2 = (isHealthy ?h1 \<and> (rs = [] \<or> \<not> unhealthyThreshold (healthCheck cfg) \<le> failures ?h1 + length rs))"
     and c2: "length (filter isNowUnhealthy evs2) =
               (if isHealthy ?h1 \<and> rs \<noteq> [] \<and> unhealthyThreshold (healthCheck cfg) \<le> failures ?h1 + length rs
                then 1 else 0)"
     and n2: "filter isNowHealthy evs2 = []"
    by blast
  have "applyProbes cfg target (p # rs) s = Inr (evs1 @ evs2, s2)"
    using p step run by simp
  moreover have "failures h2 = failures h + length (p # rs)" using f2 f1 by simp
  moreover have "isHealthy h2 = (isHealthy h \<and> (p # rs = [] \<or> \<not> unhealthyThreshold (healthCheck cfg) \<le> failures h + length (p # rs)))"
    using i2 i1 f1 by (cases rs) auto
  moreover have "length (filter isNowUnhealthy (evs1 @ evs2)) =
               (if isHealthy h \<and> p # rs \<noteq> [] \<and> unhealthyThreshold (healthCheck cfg) \<le> failures h + length (p # rs)
                then 1 else 0)"
    using c2 nu1 tr1 i1 f1 by (cases rs) auto
  moreover have "filter isNowHealthy (evs1 @ evs2) = []"
    using n2 nh1 tr1 by simp
  ultimately show ?case using h2 by blast
qed

text \<open>
  C1. One application of a probe result to a registered target: the flag goes
  from healthy to unhealthy only on a failed probe that brings \<open>failures\<close> to at
  least \<open>unhealthyThreshold\<close>, from unhealthy to healthy only on a successful
  probe that brings \<open>successes\<close> to at least \<open>healthyThreshold\<close>; a flip writes
  exactly one transition line, an application without a flip writes none, and
  no other target is touched. Over a run of failed probes the line
  "now UNHEALTHY" is written once if the run takes a healthy target to the
  threshold, and never otherwise.
\<close>

theorem C1_flips_only_at_threshold:
  assumes "map_of (targetHealth s) target = Some h"
  shows "(\<exists>evs s' h'.
            performHealthCheck_apply cfg now target result s = Inr (evs, s') \<and>
            map_of (targetHealth s') target = Some h' \<and>
            (isHealthy h \<and> \<not> isHealthy h' \<longrightarrow>
               \<not> r_isHealthy result \<and> unhealthyThreshold (healthCheck cfg) \<le> failures h' \<and>
               filter isTransition evs = [NowUnhealthy target (errorMsg result)]) \<and>
            (\<not> isHealthy h \<and> isHealthy h' \<longrightarrow>
               r_isHealthy result \<and> healthyThreshold (healthCheck cfg) \<le> successes h' \<and>
               (\<exists>c l. filter isTransition evs = [NowHealthy target c l])) \<and>
            (isHealthy h' = isHealthy h \<longrightarrow> filter isTransition evs = []) \<and>
            (\<forall>t. t \<noteq> target \<longrightarrow> map_of (targetHealth s') t = map_of (targetHealth s) t))
       \<and> (list_all (\<lambda>(now, r). \<not> r_isHealthy r) rs \<longrightarrow>
           (\<exists>evs s' h'.
              applyProbes cfg target rs s = Inr (evs, s') \<and>
              map_of (targetHealth s') target = Some h' \<and>
              isHealthy h' = (isHealthy h \<and> (rs = [] \<or> \<not> unhealthyThreshold (healthCheck cfg) \<le> failures h + length rs)) \<and>
              length (filter isNowUnhealthy evs) =
                (if isHealthy h \<and> rs \<noteq> [] \<and> unhealthyThreshold (healthCheck cfg) \<le> failures h + length rs
                 then 1 else 0) \<and>
              filter isNowHealthy evs = []))"
proof (intro conjI impI)
  from performHealthCheck_apply_Some [OF assms, of cfg now result]
  obtain evs s' where step: "performHealthCheck_apply cfg now target result s = Inr (evs, s')"
    by blast
  let ?h' = "appliedHealth cfg now result h"
  note facts = health_after_apply [OF assms step]
  have down: "isHealthy h \<and> \<not> isHealthy ?h' \<longrightarrow>
               \<not> r_isHealthy result \<and> unhealthyThreshold (healthCheck cfg) \<le> failures ?h' \<and>
               filter isTransition evs = [NowUnhealthy target (errorMsg result)]"
    using facts(6) by (auto simp: appliedHealth_def)
  have up: "\<not> isHealthy h \<and> isHealthy ?h' \<longrightarrow>
               r_isHealthy result \<and> healthyThreshold (healthCheck cfg) \<le> successes ?h' \<and>
               (\<exists>c l. filter isTransition evs = [NowHealthy target c l])"
    using facts(6) by (auto simp: appliedHealth_def)
  have same: "isHealthy ?h' = isHealthy h \<longrightarrow> filter isTransition evs = []"
    using facts(6) by auto
  have others: "\<forall>t. t \<noteq> target \<longrightarrow> map_of (targetHealth s') t = map_of (targetHealth s) t"
    using facts(2) by blast
  from step facts(1) down up same others
  show "\<exists>evs s' h'.
            performHealthCheck_apply cfg now target result s = Inr (evs, s') \<and>
            map_of (targetHealth s') target = Some h' \<and>
            (isHealthy h \<and> \<not> isHealthy h' \<longrightarrow>
               \<not> r_isHealthy result \<and> unhealthyThreshold (healthCheck cfg) \<le> failures h' \<and>
               filter isTransition evs = [NowUnhealthy target (errorMsg result)]) \<and>
            (\<not> isHealthy h \<and> isHealthy h' \<longrightarrow>
               r_isHealthy result \<and> healthyThreshold (healthCheck cfg) \<le> successes h' \<and>
               (\<exists>c l. filter isTransition evs = [NowHealthy target c l])) \<and>
            (isHealthy h' = isHealthy h \<longrightarrow> filter isTransition evs = []) \<and>
            (\<forall>t. t \<noteq> target \<longrightarrow> map_of (targetHealth s') t = map_of (targetHealth s) t)"
    by blast
next
  assume "list_all (\<lambda>(now, r). \<not> r_isHealthy r) rs"
  from applyProbes_failures [OF assms this, of cfg]
  show "\<exists>evs s' h'.
              applyProbes cfg target rs s = Inr (evs, s') \<and>
              map_of (targetHealth s') target = Some h' \<and>
              isHealthy h' = (isHealthy h \<and> (rs = [] \<or> \<not> unhealthyThreshold (healthCheck cfg) \<le> failures h + length rs)) \<and>
              length (filter isNowUnhealthy evs) =
                (if isHealthy h \<and> rs \<noteq> [] \<and> unhealthyThreshold (healthCheck cfg) \<le> failures h + length rs
                 then 1 else 0) \<and>
              filter isNowHealthy evs = []"
    by blast
qed

text \<open>
  C5. When the application of a probe result takes a target from healthy to
  unhealthy, the state it leaves has no session entry for that target, for any
  client key; the entries for other targets are kept.
\<close>

theorem C5_sessions_purged_on_transition:
  assumes "map_of (targetHealth s) target = Some h"
      and "isHealthy h"
      and "performHealthCheck_apply cfg now target result s = Inr (evs, s')"
      and "map_of (targetHealth s') target = Some h'"
      and "\<not> isHealthy h'"
  shows "(\<forall>ip. map_of (sessionMap s') ip \<noteq> Some target)
       \<and> target \<notin> snd ` set (sessionMap s')
       \<and> (\<forall>ip t. t \<noteq> target \<and> map_of (sessionMap s) ip = Some t \<longrightarrow> map_of (sessionMap s') ip = Some t)"
proof -
  note facts = health_after_apply [OF assms(1) assms(3)]
  from facts(1) assms(4) have "h' = appliedHealth cfg now result h" by simp
  with facts(3) assms(2) assms(5)
  have sm: "sessionMap s' = purgeSessions target (sessionMap s)" by simp
  have "target \<notin> snd ` set (purgeSessions target (sessionMap s))"
    by (auto simp: purgeSessions_def)
  with sm show ?thesis
    by (simp add: map_of_purgeSessions map_of_purgeSessions_other)
qed

text \<open>
  C4. A probe that was sent is a success exactly when the response status is
  200, the success code of the source; every other status, a connection error
  and a timeout are failures.
\<close>

theorem C4_probe_classification:
  "r_isHealthy (checkTargetHealth s (Response statusCode lat)) = (\<not> isShuttingDown s \<and> statusCode = 200)
   \<and> r_isHealthy (checkTargetHealth s (ConnError message lat)) = False
   \<and> r_isHealthy (checkTargetHealth s (Timeout lat)) = False"
  by (simp add: checkTargetHealth_def)

lemma getTargetForIp_frame:
  assumes "getTargetForIp cfg targets ip s = Inr (r, s')"
  shows "targetHealth s' = targetHealth s"
    and "isShuttingDown s' = isShuttingDown s"
    and "k \<noteq> ip \<Longrightarrow> map_of (sessionMap s') k = map_of (sessionMap s) k"
  using assms
  by (auto simp: getTargetForIp_def roundRobin_def remember_def Let_def update_conv' delete_conv'
           split: option.splits if_splits sum.splits)

lemma healthyTarget_cong:
  "targetHealth s' = targetHealth s \<Longrightarrow> healthyTarget s' = healthyTarget s"
  by (simp add: healthyTarget_def fun_eq_iff)

lemma getTargetForIp_hit:
  assumes "ss_enabled (stickySession cfg)"
      and "map_of (sessionMap s) k = Some t"
      and "healthyTarget s t"
  shows "getTargetForIp cfg targets k s = Inr (Some t, s)"
  using assms by (simp add: getTargetForIp_def)

lemma getTargetForIp_miss:
  assumes "\<not> affinityHit cfg ip s"
  shows "getTargetForIp cfg targets ip s =
          (case failover cfg of
             None \<Rightarrow> Inl TypeError
           | Some fo \<Rightarrow>
              (case (if fo_enabled fo \<and> 2 \<le> length targets
                     then failoverTarget targets (afterStickyMiss cfg ip s) else None) of
                 Some target \<Rightarrow> Inr (Some target, remember cfg ip target (afterStickyMiss cfg ip s))
               | None \<Rightarrow> Inr (roundRobin cfg targets ip (afterStickyMiss cfg ip s))))"
  using assms
  by (auto simp: getTargetForIp_def affinityHit_def afterStickyMiss_def split: option.splits)

lemma afterStickyMiss_frame:
  "targetHealth (afterStickyMiss cfg ip s) = targetHealth s"
  "current (afterStickyMiss cfg ip s) = current s"
  "isShuttingDown (afterStickyMiss cfg ip s) = isShuttingDown s"
  "healthyTarget (afterStickyMiss cfg ip s) = healthyTarget s"
  by (simp_all add: afterStickyMiss_def healthyTarget_def fun_eq_iff)

lemma remember_frame:
  "targetHealth (remember cfg ip t s) = targetHealth s"
  "current (remember cfg ip t s) = current s"
  "isShuttingDown (remember cfg ip t s) = isShuttingDown s"
  by (simp_all add: remember_def)

text \<open>
  C2. Failover enabled, at least two targets, no affinity hit for the client
  key: a healthy primary is returned; an unhealthy primary with a healthy
  secondary gives the secondary, with the cursor untouched; in every other case
  the result is that of the round-robin fallback.
\<close>

theorem C2_failover_precedence:
  assumes "failover cfg = Some fo" and "fo_enabled fo" and "2 \<le> length targets"
      and "\<not> affinityHit cfg ip s"
  shows "(healthyTarget s (targets ! 0) \<longrightarrow>
            getTargetForIp cfg targets ip s =
              Inr (Some (targets ! 0), remember cfg ip (targets ! 0) (afterStickyMiss cfg ip s)))
       \<and> ((\<exists>h1. map_of (targetHealth s) (targets ! 0) = Some h1 \<and> \<not> isHealthy h1) \<and>
           healthyTarget s (targets ! 1) \<longrightarrow>
            getTargetForIp cfg targets ip s =
              Inr (Some (targets ! 1), remember cfg ip (targets ! 1) (afterStickyMiss cfg ip s)) \<and>
            current (remember cfg ip (targets ! 1) (afterStickyMiss cfg ip s)) = current s)
       \<and> (\<not> healthyTarget s (targets ! 0) \<and>
           \<not> ((\<exists>h1. map_of (targetHealth s) (targets ! 0) = Some h1 \<and> \<not> isHealthy h1) \<and>
               healthyTarget s (targets ! 1)) \<longrightarrow>
            getTargetForIp cfg targets ip s = Inr (roundRobin cfg targets ip (afterStickyMiss cfg ip s)))"
  using assms
  by (auto simp: getTargetForIp_miss failoverTarget_def afterStickyMiss_frame remember_frame
                 healthyTarget_def Let_def split: option.splits)

lemma proxyError_Some:
  assumes "map_of (targetHealth s) target = Some h"
  shows "proxyError target s =
           (s\<lparr> targetHealth := AList.update target (h\<lparr> failures := failures h + 1 \<rparr>) (targetHealth s) \<rparr>,
            [target])"
  using assms by (simp add: proxyError_def)

lemma proxyError_frame:
  "sessionMap (fst (proxyError target s)) = sessionMap s"
  "current (fst (proxyError target s)) = current s"
  "isShuttingDown (fst (proxyError target s)) = isShuttingDown s"
  "healthyTarget (fst (proxyError target s)) = healthyTarget s"
  by (auto simp: proxyError_def healthyTarget_def fun_eq_iff update_conv' split: option.splits)

lemma hit_after_probe:
  assumes "map_of (sessionMap s) k = Some t"
      and step: "performHealthCheck_apply cfg now target result s = Inr (evs, s')"
      and ht: "healthyTarget s' t"
  shows "map_of (sessionMap s') k = Some t"
proof -
  obtain h where h: "map_of (targetHealth s) target = Some h"
    using step by (cases "map_of (targetHealth s) target") (simp_all add: performHealthCheck_apply_None)
  note facts = health_after_apply [OF h step]
  show ?thesis
  proof (cases "isHealthy h \<and> \<not> isHealthy (appliedHealth cfg now result h)")
    case False
    with facts(3) assms(1) show ?thesis by simp
  next
    case True
    have "t \<noteq> target"
    proof
      assume "t = target"
      with facts(1) True ht show False by (simp add: healthyTarget_def)
    qed
    with facts(3) True assms(1) show ?thesis
      by (simp add: map_of_purgeSessions_other)
  qed
qed

lemma hit_after_other_client:
  assumes "map_of (sessionMap s) k = Some t"
      and "healthyTarget s t"
      and ne: "k \<noteq> k'"
      and call: "getTargetForIp cfg targets k' s = Inr (r, s')"
  shows "map_of (sessionMap s') k = Some t" and "healthyTarget s' t"
proof -
  from getTargetForIp_frame(3) [OF call ne] assms(1)
  show "map_of (sessionMap s') k = Some t" by simp
  from healthyTarget_cong [OF getTargetForIp_frame(1) [OF call]] assms(2)
  show "healthyTarget s' t" by simp
qed

lemma stickySessionReset_frame:
  "sessionMap (stickySessionReset s) = []"
  "current (stickySessionReset s) = current s"
  "targetHealth (stickySessionReset s) = targetHealth s"
  "isShuttingDown (stickySessionReset s) = isShuttingDown s"
  "healthyTarget (stickySessionReset s) = healthyTarget s"
  "\<not> affinityHit cfg ip (stickySessionReset s)"
  "afterStickyMiss cfg ip (stickySessionReset s) = stickySessionReset s"
  by (simp_all add: stickySessionReset_def healthyTarget_def affinityHit_def afterStickyMiss_def fun_eq_iff)

lemma no_entry_once_unhealthy:
  assumes "healthyTarget s t"
      and step: "performHealthCheck_apply cfg now target result s = Inr (evs, s')"
      and down: "\<not> healthyTarget s' t"
  shows "map_of (sessionMap s') k \<noteq> Some t"
proof -
  obtain h where h: "map_of (targetHealth s) target = Some h"
    using step by (cases "map_of (targetHealth s) target") (simp_all add: performHealthCheck_apply_None)
  note facts = health_after_apply [OF h step]
  have eq: "target = t"
  proof (rule ccontr)
    assume "target \<noteq> t"
    then have "map_of (targetHealth s') t = map_of (targetHealth s) t"
      using facts(2) [of t] by simp
    with assms(1) down show False by (simp add: healthyTarget_def)
  qed
  from assms(1) h eq have "isHealthy h" by (simp add: healthyTarget_def)
  moreover from down facts(1) eq have "\<not> isHealthy (appliedHealth cfg now result h)"
    by (simp add: healthyTarget_def)
  ultimately have "sessionMap s' = purgeSessions target (sessionMap s)"
    using facts(3) by simp
  with eq show ?thesis by (simp add: map_of_purgeSessions)
qed

text \<open>
  C6, as the code has it. Sticky sessions enabled and the client key cached on
  a healthy target: the cached target is returned and the state, cursor
  included, is unchanged. The same holds after any probe application that
  leaves the cached target healthy, after a selection for another client key
  and after a dispatch failure. The affinity ends when a probe application
  takes the target to unhealthy, which removes the entry, and when the periodic
  reset clears the session map: the next selection for the key is then a miss,
  decided by failover and round-robin, although the target is still healthy.
\<close>

theorem C6_affinity_until_unhealthy_or_reset:
  assumes "ss_enabled (stickySession cfg)"
      and "map_of (sessionMap s) k = Some t"
      and "healthyTarget s t"
  shows "getTargetForIp cfg targets k s = Inr (Some t, s)
       \<and> (\<forall>now target result evs s'.
            performHealthCheck_apply cfg now target result s = Inr (evs, s') \<and> healthyTarget s' t \<longrightarrow>
            getTargetForIp cfg targets k s' = Inr (Some t, s'))
       \<and> (\<forall>k' r s'.
            k' \<noteq> k \<and> getTargetForIp cfg targets k' s = Inr (r, s') \<longrightarrow>
            getTargetForIp cfg targets k s' = Inr (Some t, s'))
       \<and> (\<forall>target. getTargetForIp cfg targets k (fst (proxyError target s)) =
                      Inr (Some t, fst (proxyError target s)))
       \<and> (\<forall>now target result evs s'.
            performHealthCheck_apply cfg now target result s = Inr (evs, s') \<and> \<not> healthyTarget s' t \<longrightarrow>
            map_of (sessionMap s') k \<noteq> Some t)
       \<and> sessionMap (stickySessionReset s) = []
       \<and> healthyTarget (stickySessionReset s) t
       \<and> \<not> affinityHit cfg k (stickySessionReset s)
       \<and> getTargetForIp cfg targets k (stickySessionReset s) =
           (case failover cfg of
              None \<Rightarrow> Inl TypeError
            | Some fo \<Rightarrow>
               (case (if fo_enabled fo \<and> 2 \<le> length targets
                      then failoverTarget targets (stickySessionReset s) else None) of
                  Some target \<Rightarrow> Inr (Some target, remember cfg k target (stickySessionReset s))
                | None \<Rightarrow> Inr (roundRobin cfg targets k (stickySessionReset s))))"
proof (intro conjI allI impI)
  show "getTargetForIp cfg targets k s = Inr (Some t, s)"
    using assms by (rule getTargetForIp_hit)
next
  fix now target result evs s'
  assume a: "performHealthCheck_apply cfg now target result s = Inr (evs, s') \<and> healthyTarget s' t"
  then have step: "performHealthCheck_apply cfg now target result s = Inr (evs, s')"
    and ht: "healthyTarget s' t" by simp_all
  show "getTargetForIp cfg targets k s' = Inr (Some t, s')"
    by (rule getTargetForIp_hit [OF assms(1) hit_after_probe [OF assms(2) step ht] ht])
next
  fix k' r s'
  assume a: "k' \<noteq> k \<and> getTargetForIp cfg targets k' s = Inr (r, s')"
  then have ne: "k \<noteq> k'" and call: "getTargetForIp cfg targets k' s = Inr (r, s')" by auto
  show "getTargetForIp cfg targets k s' = Inr (Some t, s')"
    by (rule getTargetForIp_hit [OF assms(1) hit_after_other_client [OF assms(2,3) ne call]])
next
  fix target
  have "map_of (sessionMap (fst (proxyError target s))) k = Some t"
    using assms(2) by (simp add: proxyError_frame)
  moreover have "healthyTarget (fst (proxyError target s)) t"
    using assms(3) by (simp add: proxyError_frame)
  ultimately
  show "getTargetForIp cfg targets k (fst (proxyError target s)) = Inr (Some t, fst (proxyError target s))"
    by (rule getTargetForIp_hit [OF assms(1)])
next
  fix now target result evs s'
  assume a: "performHealthCheck_apply cfg now target result s = Inr (evs, s') \<and> \<not> healthyTarget s' t"
  then have step: "performHealthCheck_apply cfg now target result s = Inr (evs, s')"
    and down: "\<not> healthyTarget s' t" by simp_all
  show "map_of (sessionMap s') k \<noteq> Some t"
    by (rule no_entry_once_unhealthy [OF assms(3) step down])
next
  show "sessionMap (stickySessionReset s) = []" by (rule stickySessionReset_frame(1))
next
  show "healthyTarget (stickySessionReset s) t"
    using assms(3) by (simp add: stickySessionReset_frame(5))
next
  show "\<not> affinityHit cfg k (stickySessionReset s)" by (rule stickySessionReset_frame(6))
next
  show "getTargetForIp cfg targets k (stickySessionReset s) =
           (case failover cfg of
              None \<Rightarrow> Inl TypeError
            | Some fo \<Rightarrow>
               (case (if fo_enabled fo \<and> 2 \<le> length targets
                      then failoverTarget targets (stickySessionReset s) else None) of
                  Some target \<Rightarrow> Inr (Some target, remember cfg k target (stickySessionReset s))
                | None \<Rightarrow> Inr (roundRobin cfg targets k (stickySessionReset s))))"
    using getTargetForIp_miss [OF stickySessionReset_frame(6), of cfg targets k s]
    by (simp only: stickySessionReset_frame(7))
qed

text \<open>
  The registry holds exactly the configured targets from the start, and probe
  applications and dispatch failures keep its keys; selections and \<open>shutdown\<close>
  do not write to it at all.
\<close>

lemma registry_keys_fold:
  "fst ` set (fold (\<lambda>target th. AList.update target v th) targets th0) = set targets \<union> fst ` set th0"
  by (induction targets arbitrary: th0) (auto simp: dom_update)

lemma registry_keys_initState:
  "fst ` set (targetHealth (initState targets)) = set targets"
  by (simp add: initState_def registry_keys_fold)

lemma registry_keys_probe:
  assumes "performHealthCheck_apply cfg now target result s = Inr (evs, s')"
  shows "fst ` set (targetHealth s') = fst ` set (targetHealth s)"
proof (cases "map_of (targetHealth s) target")
  case None
  with assms show ?thesis by (simp add: performHealthCheck_apply_None)
next
  case (Some h)
  then have "(target, h) \<in> set (targetHealth s)" by (rule map_of_SomeD)
  then have "target \<in> fst ` set (targetHealth s)" by force
  moreover from performHealthCheck_apply_Some [OF Some, of cfg now result] assms
  have "targetHealth s' = AList.update target (appliedHealth cfg now result h) (targetHealth s)"
    by auto
  ultimately show ?thesis by (auto simp: dom_update)
qed

lemma registry_keys_proxyError:
  "fst ` set (targetHealth (fst (proxyError target s))) = fst ` set (targetHealth s)"
proof (cases "map_of (targetHealth s) target")
  case None
  then show ?thesis by (simp add: proxyError_def)
next
  case (Some h)
  then have "(target, h) \<in> set (targetHealth s)" by (rule map_of_SomeD)
  then have "target \<in> fst ` set (targetHealth s)" by force
  then show ?thesis by (auto simp: proxyError_Some [OF Some] dom_update)
qed



text \<open>
  C9. The error callback of the proxy adds one to \<open>failures\<close> of the target and
  starts a probe of it; \<open>successes\<close>, the flag, the other targets, the sessions
  and the cursor stay as they are, so both counters are nonzero afterwards when
  \<open>successes\<close> was. Neither this callback nor \<open>shutdown\<close> nor a selection changes
  a health flag.
\<close>

theorem C9_dispatch_failure_frame:
  assumes "map_of (targetHealth s) target = Some h"
  shows "(\<exists>s'. proxyError target s = (s', [target]) \<and>
            map_of (targetHealth s') target = Some (h\<lparr> failures := failures h + 1 \<rparr>) \<and>
            (\<forall>t. t \<noteq> target \<longrightarrow> map_of (targetHealth s') t = map_of (targetHealth s) t) \<and>
            sessionMap s' = sessionMap s \<and> current s' = current s \<and>
            isShuttingDown s' = isShuttingDown s \<and>
            (0 < successes h \<longrightarrow>
               (\<exists>h'. map_of (targetHealth s') target = Some h' \<and> 0 < failures h' \<and> 0 < successes h')))
       \<and> healthyTarget (fst (proxyError target s)) = healthyTarget s
       \<and> targetHealth (shutdown s) = targetHealth s
       \<and> (\<forall>cfg targets ip r s'.
            getTargetForIp cfg targets ip s = Inr (r, s') \<longrightarrow> targetHealth s' = targetHealth s)"
proof (intro conjI allI impI)
  show "\<exists>s'. proxyError target s = (s', [target]) \<and>
            map_of (targetHealth s') target = Some (h\<lparr> failures := failures h + 1 \<rparr>) \<and>
            (\<forall>t. t \<noteq> target \<longrightarrow> map_of (targetHealth s') t = map_of (targetHealth s) t) \<and>
            sessionMap s' = sessionMap s \<and> current s' = current s \<and>
            isShuttingDown s' = isShuttingDown s \<and>
            (0 < successes h \<longrightarrow>
               (\<exists>h'. map_of (targetHealth s') target = Some h' \<and> 0 < failures h' \<and> 0 < successes h'))"
    by (simp add: proxyError_Some [OF assms] update_conv')
next
  show "healthyTarget (fst (proxyError target s)) = healthyTarget s"
    by (rule proxyError_frame(4))
next
  show "targetHealth (shutdown s) = targetHealth s"
    by (simp add: shutdown_def)
next
  fix cfg targets ip r s'
  assume "getTargetForIp cfg targets ip s = Inr (r, s')"
  then show "targetHealth s' = targetHealth s" by (rule getTargetForIp_frame(1))
qed

text \<open>
  C10. Under the configuration of \<open>src/config.js\<close> a selection that is not an
  affinity hit throws a TypeError, whatever the targets, the client key and the
  state; in particular with an empty session map, as in the initial state, and
  the request handler throws with it. The round-robin fallback is never reached.
\<close>

theorem C10_config_js_throws:
  "(sessionMap s = [] \<longrightarrow> getTargetForIp config_js targets ip s = Inl TypeError)
   \<and> (\<not> affinityHit config_js ip s \<longrightarrow> getTargetForIp config_js targets ip s = Inl TypeError)
   \<and> (affinityHit config_js ip s \<longrightarrow>
        (\<exists>c. map_of (sessionMap s) ip = Some c \<and> getTargetForIp config_js targets ip s = Inr (Some c, s)))
   \<and> getTargetForIp config_js targets ip (initState targets) = Inl TypeError
   \<and> (\<not> (url = ''/status'' \<and> meth = ''GET'') \<longrightarrow>
        handleRequest config_js targets url meth ip (initState targets) = Inl TypeError)"
proof -
  have fo: "failover config_js = None" by (simp add: config_js_def)
  have miss: "getTargetForIp config_js targets ip s = Inl TypeError" if "\<not> affinityHit config_js ip s" for s
    using getTargetForIp_miss [OF that, of targets] fo by simp
  have empty: "\<not> affinityHit config_js ip s" if "sessionMap s = []" for s
    using that by (simp add: affinityHit_def)
  have init: "sessionMap (initState targets) = []" by (simp add: initState_def)
  have hit: "\<exists>c. map_of (sessionMap s) ip = Some c \<and> getTargetForIp config_js targets ip s = Inr (Some c, s)"
    if "affinityHit config_js ip s"
    using that by (auto simp: affinityHit_def getTargetForIp_def split: option.splits)
  show ?thesis
    using miss empty init hit by (simp add: handleRequest_def)
qed

lemma probe_during_shutdown_result:
  "isShuttingDown s \<Longrightarrow>
   checkTargetHealth s outcome =
     \<lparr> r_isHealthy = False, r_error = Some ''Shutting down'', r_statusCode = None, r_latency = None \<rparr>"
  by (simp add: checkTargetHealth_def)

text \<open>
  C3, as the code has it. While \<open>isShuttingDown\<close> is set, a probe of a registered
  target ignores what the target would answer and is applied as a failure:
  \<open>failures\<close> goes up by one, \<open>successes\<close> is reset, the latency is kept, and
  the flag can go to unhealthy but never to healthy. \<open>shutdown\<close> itself sets the
  flag and leaves registry, sessions and cursor as they are.
\<close>

theorem C3_shutdown_probe_applied_as_failure:
  assumes "isShuttingDown s"
      and "map_of (targetHealth s) target = Some h"
  shows "(\<exists>evs s'.
           performHealthCheck cfg now target outcome s = Inr (evs, s') \<and>
           map_of (targetHealth s') target =
             Some (h\<lparr> lastCheck := Some now, successes := 0, failures := failures h + 1,
                     isHealthy := (isHealthy h \<and> \<not> unhealthyThreshold (healthCheck cfg) \<le> failures h + 1) \<rparr>) \<and>
           (\<forall>t. t \<noteq> target \<longrightarrow> map_of (targetHealth s') t = map_of (targetHealth s) t) \<and>
           filter isNowHealthy evs = [] \<and> isShuttingDown s')
       \<and> isShuttingDown (shutdown s0)
       \<and> targetHealth (shutdown s0) = targetHealth s0
       \<and> sessionMap (shutdown s0) = sessionMap s0
       \<and> current (shutdown s0) = current s0"
proof -
  let ?r = "\<lparr> r_isHealthy = False, r_error = Some ''Shutting down'', r_statusCode = None, r_latency = None \<rparr>"
  have res: "checkTargetHealth s outcome = ?r"
    using assms(1) by (rule probe_during_shutdown_result)
  from performHealthCheck_apply_Some [OF assms(2), of cfg now ?r]
  obtain evs s' where step: "performHealthCheck_apply cfg now target ?r s = Inr (evs, s')"
    by blast
  note facts = health_after_apply [OF assms(2) step]
  have ah: "appliedHealth cfg now ?r h =
          h\<lparr> lastCheck := Some now, successes := 0, failures := failures h + 1,
             isHealthy := (isHealthy h \<and> \<not> unhealthyThreshold (healthCheck cfg) \<le> failures h + 1) \<rparr>"
    by (cases h) (simp add: appliedHealth_def)
  have nh: "filter isNowHealthy evs = []"
    using facts(6) filter_isNowHealthy_transitions [of evs]
    by (auto simp: appliedHealth_def split: if_splits)
  have "performHealthCheck cfg now target outcome s = Inr (evs, s')"
    using step res by (simp add: performHealthCheck_def)
  moreover have "map_of (targetHealth s') target =
             Some (h\<lparr> lastCheck := Some now, successes := 0, failures := failures h + 1,
                     isHealthy := (isHealthy h \<and> \<not> unhealthyThreshold (healthCheck cfg) \<le> failures h + 1) \<rparr>)"
    using facts(1) ah by simp
  moreover have "\<forall>t. t \<noteq> target \<longrightarrow> map_of (targetHealth s') t = map_of (targetHealth s) t"
    using facts(2) by blast
  moreover have "isShuttingDown s'" using facts(5) assms(1) by simp
  moreover have "isShuttingDown (shutdown s0) \<and> targetHealth (shutdown s0) = targetHealth s0
       \<and> sessionMap (shutdown s0) = sessionMap s0 \<and> current (shutdown s0) = current s0"
    by (simp add: shutdown_def)
  ultimately show ?thesis using nh by blast
qed

lemmas sample_defs =
  config_failover_def sticky_failover_def config_js_def targets_js_def initHealth_def
  okResult_def failResult_def state_one_failure_def state_primary_down_def state_all_down_def
  state_h1_down_def state_three_successes_def state_shutdown_probe_def state_shutdown_inflight_def
  sticky_roundrobin_def state_cached_cursor_def state_after_reset_def

lemma eval_probe_h1_down:
  "performHealthCheck_apply config_failover ''2024-01-01T12:00:00.000Z'' ''https://h1.example.com''
      failResult state_one_failure
     = Inr ([NowUnhealthy ''https://h1.example.com'' (ErrorMsg ''ECONNREFUSED'')], state_h1_down)"
  by (simp add: performHealthCheck_apply_def sample_defs errorMsg_def purgeSessions_def Let_def)

lemma sample_h1_record:
  "map_of (targetHealth state_one_failure) ''https://h1.example.com'' = Some (initHealth\<lparr> failures := 1 \<rparr>)"
  by (simp add: sample_defs)

theorem C1_flips_only_at_threshold_witness:
  "map_of (targetHealth state_one_failure) ''https://h1.example.com'' = Some (initHealth\<lparr> failures := 1 \<rparr>)
   \<and> (\<exists>evs s' h'.
         performHealthCheck_apply config_failover ''2024-01-01T12:00:00.000Z'' ''https://h1.example.com''
            failResult state_one_failure = Inr (evs, s') \<and>
         map_of (targetHealth s') ''https://h1.example.com'' = Some h' \<and>
         isHealthy (initHealth\<lparr> failures := 1 \<rparr>) \<and> \<not> isHealthy h' \<and>
         unhealthyThreshold (healthCheck config_failover) \<le> failures h' \<and>
         filter isTransition evs = [NowUnhealthy ''https://h1.example.com'' (errorMsg failResult)])"
proof -
  from C1_flips_only_at_threshold [OF sample_h1_record, of config_failover "''2024-01-01T12:00:00.000Z''" failResult "[]"]
  obtain evs s' h' where
    step: "performHealthCheck_apply config_failover ''2024-01-01T12:00:00.000Z'' ''https://h1.example.com''
            failResult state_one_failure = Inr (evs, s')"
    and h': "map_of (targetHealth s') ''https://h1.example.com'' = Some h'"
    and down: "isHealthy (initHealth\<lparr> failures := 1 \<rparr>) \<and> \<not> isHealthy h' \<longrightarrow>
               \<not> r_isHealthy failResult \<and> unhealthyThreshold (healthCheck config_failover) \<le> failures h' \<and>
               filter isTransition evs = [NowUnhealthy ''https://h1.example.com'' (errorMsg failResult)]"
    by blast
  from step eval_probe_h1_down have "s' = state_h1_down" by simp
  with h' have "\<not> isHealthy h'" by (auto simp: state_h1_down_def)
  moreover have "isHealthy (initHealth\<lparr> failures := 1 \<rparr>)" by (simp add: initHealth_def)
  ultimately show ?thesis using step h' down sample_h1_record by blast
qed

theorem C5_sessions_purged_on_transition_witness:
  "map_of (targetHealth state_one_failure) ''https://h1.example.com'' = Some (initHealth\<lparr> failures := 1 \<rparr>)
   \<and> isHealthy (initHealth\<lparr> failures := 1 \<rparr>)
   \<and> map_of (sessionMap state_one_failure) ''10.0.0.1'' = Some ''https://h1.example.com''
   \<and> performHealthCheck_apply config_failover ''2024-01-01T12:00:00.000Z'' ''https://h1.example.com''
        failResult state_one_failure
       = Inr ([NowUnhealthy ''https://h1.example.com'' (ErrorMsg ''ECONNREFUSED'')], state_h1_down)
   \<and> (\<forall>ip. map_of (sessionMap state_h1_down) ip \<noteq> Some ''https://h1.example.com'')"
proof -
  have h: "isHealthy (initHealth\<lparr> failures := 1 \<rparr>)" by (simp add: initHealth_def)
  have h': "map_of (targetHealth state_h1_down) ''https://h1.example.com'' =
              Some \<lparr> isHealthy = False, failures = 2, successes = 0, latency = Some 3,
                     lastCheck = Some ''2024-01-01T12:00:00.000Z'' \<rparr>"
    by (simp add: state_h1_down_def)
  have nh: "\<not> isHealthy \<lparr> isHealthy = False, failures = 2, successes = 0, latency = Some 3,
                     lastCheck = Some ''2024-01-01T12:00:00.000Z'' \<rparr>" by simp
  have sm: "map_of (sessionMap state_one_failure) ''10.0.0.1'' = Some ''https://h1.example.com''"
    by (simp add: state_one_failure_def)
  from C5_sessions_purged_on_transition [OF sample_h1_record h eval_probe_h1_down h' nh]
  show ?thesis using h sm sample_h1_record eval_probe_h1_down by blast
qed



theorem C9_dispatch_failure_frame_witness:
  "map_of (targetHealth state_three_successes) ''https://h1.example.com'' = Some (initHealth\<lparr> successes := 3 \<rparr>)
   \<and> 0 < successes (initHealth\<lparr> successes := 3 \<rparr>)
   \<and> (\<exists>s' h'. proxyError ''https://h1.example.com'' state_three_successes = (s', [''https://h1.example.com'']) \<and>
         map_of (targetHealth s') ''https://h1.example.com'' = Some h' \<and>
         h' = initHealth\<lparr> successes := 3, failures := 1 \<rparr> \<and>
         0 < failures h' \<and> 0 < successes h' \<and> isHealthy h')"
proof -
  have hyp: "map_of (targetHealth state_three_successes) ''https://h1.example.com'' = Some (initHealth\<lparr> successes := 3 \<rparr>)"
    by (simp add: sample_defs)
  have pos: "0 < successes (initHealth\<lparr> successes := 3 \<rparr>)" by (simp add: initHealth_def)
  from C9_dispatch_failure_frame [OF hyp]
  obtain s' where call: "proxyError ''https://h1.example.com'' state_three_successes = (s', [''https://h1.example.com''])"
    and h': "map_of (targetHealth s') ''https://h1.example.com''
               = Some (initHealth\<lparr> successes := 3 \<rparr>\<lparr> failures := failures (initHealth\<lparr> successes := 3 \<rparr>) + 1 \<rparr>)"
    by blast
  have eq: "initHealth\<lparr> successes := 3 \<rparr>\<lparr> failures := failures (initHealth\<lparr> successes := 3 \<rparr>) + 1 \<rparr>
            = initHealth\<lparr> successes := 3, failures := 1 \<rparr>"
    by (simp add: initHealth_def)
  have "0 < failures (initHealth\<lparr> successes := 3, failures := 1 \<rparr>)"
       "0 < successes (initHealth\<lparr> successes := 3, failures := 1 \<rparr>)"
       "isHealthy (initHealth\<lparr> successes := 3, failures := 1 \<rparr>)"
    by (simp_all add: initHealth_def)
  with hyp pos call h' eq show ?thesis by auto
qed

theorem C10_config_js_throws_witness:
  "sessionMap (initState targets_js) = []
   \<and> \<not> (''/'' = ''/status'' \<and> ''GET'' = ''GET'')
   \<and> getTargetForIp config_js targets_js ''10.0.0.1'' (initState targets_js) = Inl TypeError
   \<and> handleRequest config_js targets_js ''/'' ''GET'' ''10.0.0.1'' (initState targets_js) = Inl TypeError"
proof -
  have e: "sessionMap (initState targets_js) = []" by (simp add: initState_def)
  have u: "\<not> (''/'' = ''/status'' \<and> ''GET'' = ''GET'')" by simp
  from C10_config_js_throws [of "initState targets_js" targets_js "''10.0.0.1''" "''/''" "''GET''"] e u
  show ?thesis by blast
qed

theorem C2_failover_precedence_witness:
  "failover config_failover = Some \<lparr> fo_enabled = True \<rparr> \<and> fo_enabled \<lparr> fo_enabled = True \<rparr>
   \<and> 2 \<le> length targets_js
   \<and> \<not> affinityHit config_failover ''10.0.0.1'' (initState targets_js)
   \<and> \<not> affinityHit config_failover ''10.0.0.1'' state_primary_down
   \<and> healthyTarget (initState targets_js) (targets_js ! 0)
   \<and> (\<exists>h1. map_of (targetHealth state_primary_down) (targets_js ! 0) = Some h1 \<and> \<not> isHealthy h1)
   \<and> healthyTarget state_primary_down (targets_js ! 1)
   \<and> getTargetForIp config_failover targets_js ''10.0.0.1'' (initState targets_js)
        = Inr (Some ''https://h1.example.com'', initState targets_js)
   \<and> getTargetForIp config_failover targets_js ''10.0.0.1'' state_primary_down
        = Inr (Some ''https://h2.example.com'', state_primary_down)"
proof -
  have fo: "failover config_failover = Some \<lparr> fo_enabled = True \<rparr>" by (simp add: config_failover_def)
  have en: "fo_enabled \<lparr> fo_enabled = True \<rparr>" by simp
  have len: "2 \<le> length targets_js" by (simp add: targets_js_def)
  have m1: "\<not> affinityHit config_failover ''10.0.0.1'' (initState targets_js)"
    and m2: "\<not> affinityHit config_failover ''10.0.0.1'' state_primary_down"
    by (simp_all add: affinityHit_def config_failover_def)
  have p1: "healthyTarget (initState targets_js) (targets_js ! 0)"
    by (simp add: healthyTarget_def initState_def sample_defs)
  have p2: "\<exists>h1. map_of (targetHealth state_primary_down) (targets_js ! 0) = Some h1 \<and> \<not> isHealthy h1"
    by (simp add: sample_defs)
  have p3: "healthyTarget state_primary_down (targets_js ! 1)"
    by (simp add: healthyTarget_def sample_defs)
  have r1: "remember config_failover ''10.0.0.1'' (targets_js ! 0)
              (afterStickyMiss config_failover ''10.0.0.1'' (initState targets_js)) = initState targets_js"
    and r2: "remember config_failover ''10.0.0.1'' (targets_js ! 1)
              (afterStickyMiss config_failover ''10.0.0.1'' state_primary_down) = state_primary_down"
    by (simp_all add: remember_def afterStickyMiss_def config_failover_def)
  have t: "targets_js ! 0 = ''https://h1.example.com''" "targets_js ! 1 = ''https://h2.example.com''"
    by (simp_all add: targets_js_def)
  from C2_failover_precedence [OF fo en len m1] p1 r1 t
  have a: "getTargetForIp config_failover targets_js ''10.0.0.1'' (initState targets_js)
        = Inr (Some ''https://h1.example.com'', initState targets_js)" by simp
  from C2_failover_precedence [OF fo en len m2] p2 p3 r2 t
  have b: "getTargetForIp config_failover targets_js ''10.0.0.1'' state_primary_down
        = Inr (Some ''https://h2.example.com'', state_primary_down)" by simp
  from fo en len m1 m2 p1 p2 p3 a b show ?thesis by blast
qed

theorem C6_affinity_until_unhealthy_or_reset_witness:
  "ss_enabled (stickySession sticky_roundrobin)
   \<and> map_of (sessionMap state_cached_cursor) ''10.0.0.1'' = Some ''https://h1.example.com''
   \<and> healthyTarget state_cached_cursor ''https://h1.example.com''
   \<and> getTargetForIp sticky_roundrobin targets_js ''10.0.0.1'' state_cached_cursor
        = Inr (Some ''https://h1.example.com'', state_cached_cursor)
   \<and> sessionMap (stickySessionReset state_cached_cursor) = []
   \<and> getTargetForIp sticky_roundrobin targets_js ''10.0.0.1'' (stickySessionReset state_cached_cursor)
        = Inr (roundRobin sticky_roundrobin targets_js ''10.0.0.1'' (stickySessionReset state_cached_cursor))"
proof -
  have a: "ss_enabled (stickySession sticky_roundrobin)" by (simp add: sample_defs)
  have b: "map_of (sessionMap state_cached_cursor) ''10.0.0.1'' = Some ''https://h1.example.com''"
    by (simp add: sample_defs)
  have c: "healthyTarget state_cached_cursor ''https://h1.example.com''"
    by (simp add: healthyTarget_def sample_defs)
  have fo: "failover sticky_roundrobin = Some \<lparr> fo_enabled = False \<rparr>" by (simp add: sample_defs)
  note inst = C6_affinity_until_unhealthy_or_reset [OF a b c, of targets_js]
  from inst have hit: "getTargetForIp sticky_roundrobin targets_js ''10.0.0.1'' state_cached_cursor
        = Inr (Some ''https://h1.example.com'', state_cached_cursor)" by blast
  from inst have empty: "sessionMap (stickySessionReset state_cached_cursor) = []" by blast
  from inst have "getTargetForIp sticky_roundrobin targets_js ''10.0.0.1'' (stickySessionReset state_cached_cursor) =
           (case failover sticky_roundrobin of
              None \<Rightarrow> Inl TypeError
            | Some fo \<Rightarrow>
               (case (if fo_enabled fo \<and> 2 \<le> length targets_js
                      then failoverTarget targets_js (stickySessionReset state_cached_cursor) else None) of
                  Some target \<Rightarrow> Inr (Some target, remember sticky_roundrobin ''10.0.0.1'' target (stickySessionReset state_cached_cursor))
                | None \<Rightarrow> Inr (roundRobin sticky_roundrobin targets_js ''10.0.0.1'' (stickySessionReset state_cached_cursor))))"
    by blast
  with fo have miss: "getTargetForIp sticky_roundrobin targets_js ''10.0.0.1'' (stickySessionReset state_cached_cursor)
        = Inr (roundRobin sticky_roundrobin targets_js ''10.0.0.1'' (stickySessionReset state_cached_cursor))"
    by simp
  from a b c hit empty miss show ?thesis by blast
qed

theorem C6_affinity_ends_at_reset_counterexample:
  "ss_enabled (stickySession sticky_roundrobin)
   \<and> map_of (sessionMap state_cached_cursor) ''10.0.0.1'' = Some ''https://h1.example.com''
   \<and> healthyTarget state_cached_cursor ''https://h1.example.com''
   \<and> getTargetForIp sticky_roundrobin targets_js ''10.0.0.1'' state_cached_cursor
        = Inr (Some ''https://h1.example.com'', state_cached_cursor)
   \<and> healthyTarget (stickySessionReset state_cached_cursor) ''https://h1.example.com''
   \<and> getTargetForIp sticky_roundrobin targets_js ''10.0.0.1'' (stickySessionReset state_cached_cursor)
        = Inr (Some ''https://h2.example.com'', state_after_reset)
   \<and> healthyTarget state_after_reset ''https://h1.example.com''
   \<and> current (stickySessionReset state_cached_cursor) = 1
   \<and> current state_after_reset = 0"
  by (simp add: getTargetForIp_def roundRobin_def getHealthyTargets_def remember_def healthyTarget_def
        stickySessionReset_def sample_defs Let_def)


lemma eval_shutdown_probe:
  "performHealthCheck config_failover ''2024-01-01T12:00:00.000Z'' ''https://h1.example.com''
      (Response 200 5) (shutdown state_one_failure)
     = Inr ([NowUnhealthy ''https://h1.example.com'' (ErrorMsg ''Shutting down'')], state_shutdown_probe)"
  by (simp add: performHealthCheck_def performHealthCheck_apply_def checkTargetHealth_def shutdown_def
        sample_defs errorMsg_def purgeSessions_def Let_def)

lemma eval_shutdown_inflight:
  "performHealthCheck_apply config_failover ''2024-01-01T12:00:00.000Z'' ''https://h1.example.com''
      (checkTargetHealth state_one_failure (ConnError ''socket hang up'' 7)) (shutdown state_one_failure)
     = Inr ([NowUnhealthy ''https://h1.example.com'' (ErrorMsg ''socket hang up'')], state_shutdown_inflight)"
  by (simp add: performHealthCheck_apply_def checkTargetHealth_def shutdown_def
        sample_defs errorMsg_def purgeSessions_def Let_def)

theorem C3_shutdown_discards_counterexample:
  "isShuttingDown (shutdown state_one_failure)
   \<and> performHealthCheck config_failover ''2024-01-01T12:00:00.000Z'' ''https://h1.example.com''
        (Response 200 5) (shutdown state_one_failure)
       = Inr ([NowUnhealthy ''https://h1.example.com'' (ErrorMsg ''Shutting down'')], state_shutdown_probe)
   \<and> targetHealth state_shutdown_probe \<noteq> targetHealth (shutdown state_one_failure)
   \<and> sessionMap state_shutdown_probe \<noteq> sessionMap (shutdown state_one_failure)
   \<and> performHealthCheck_apply config_failover ''2024-01-01T12:00:00.000Z'' ''https://h1.example.com''
        (checkTargetHealth state_one_failure (ConnError ''socket hang up'' 7)) (shutdown state_one_failure)
       = Inr ([NowUnhealthy ''https://h1.example.com'' (ErrorMsg ''socket hang up'')], state_shutdown_inflight)
   \<and> targetHealth state_shutdown_inflight \<noteq> targetHealth (shutdown state_one_failure)"
proof -
  have "isShuttingDown (shutdown state_one_failure)" by (simp add: shutdown_def)
  moreover have "targetHealth state_shutdown_probe \<noteq> targetHealth (shutdown state_one_failure)"
    by (simp add: shutdown_def sample_defs)
  moreover have "sessionMap state_shutdown_probe \<noteq> sessionMap (shutdown state_one_failure)"
    by (simp add: shutdown_def sample_defs)
  moreover have "targetHealth state_shutdown_inflight \<noteq> targetHealth (shutdown state_one_failure)"
    by (simp add: shutdown_def sample_defs)
  ultimately show ?thesis using eval_shutdown_probe eval_shutdown_inflight by blast
qed

theorem C3_shutdown_probe_applied_as_failure_witness:
  "isShuttingDown (shutdown state_one_failure)
   \<and> map_of (targetHealth (shutdown state_one_failure)) ''https://h1.example.com''
        = Some (initHealth\<lparr> failures := 1 \<rparr>)
   \<and> (\<exists>evs s'.
         performHealthCheck config_failover ''2024-01-01T12:00:00.000Z'' ''https://h1.example.com''
           (Response 200 5) (shutdown state_one_failure) = Inr (evs, s') \<and>
         map_of (targetHealth s') ''https://h1.example.com''
           = Some \<lparr> isHealthy = False, failures = 2, successes = 0, latency = None,
                    lastCheck = Some ''2024-01-01T12:00:00.000Z'' \<rparr> \<and>
         isShuttingDown s')"
proof -
  have sd: "isShuttingDown (shutdown state_one_failure)" by (simp add: shutdown_def)
  have h: "map_of (targetHealth (shutdown state_one_failure)) ''https://h1.example.com''
        = Some (initHealth\<lparr> failures := 1 \<rparr>)"
    by (simp add: shutdown_def sample_defs)
  have eq: "initHealth\<lparr> failures := 1 \<rparr>
              \<lparr> lastCheck := Some ''2024-01-01T12:00:00.000Z'', successes := 0,
                failures := failures (initHealth\<lparr> failures := 1 \<rparr>) + 1,
                isHealthy := (isHealthy (initHealth\<lparr> failures := 1 \<rparr>) \<and>
                   \<not> unhealthyThreshold (healthCheck config_failover) \<le> failures (initHealth\<lparr> failures := 1 \<rparr>) + 1) \<rparr>
            = \<lparr> isHealthy = False, failures = 2, successes = 0, latency = None,
                lastCheck = Some ''2024-01-01T12:00:00.000Z'' \<rparr>"
    by (simp add: initHealth_def config_failover_def)
  note inst = C3_shutdown_probe_applied_as_failure
    [OF sd h, of config_failover "''2024-01-01T12:00:00.000Z''" "Response 200 5", THEN conjunct1]
  from inst [unfolded eq]
  obtain evs s' where
    "performHealthCheck config_failover ''2024-01-01T12:00:00.000Z'' ''https://h1.example.com''
           (Response 200 5) (shutdown state_one_failure) = Inr (evs, s')"
    "map_of (targetHealth s') ''https://h1.example.com''
           = Some \<lparr> isHealthy = False, failures = 2, successes = 0, latency = None,
                    lastCheck = Some ''2024-01-01T12:00:00.000Z'' \<rparr>"
    "isShuttingDown s'"
    by blast
  with sd h show ?thesis by blast
qed

end
